theory Spec2Isabelle
  imports Main
begin

section \<open>Strings of the page script\<close>

text \<open>
  The script injected by \<open>buildSearchToggleExpression\<close> (searchToggle.ts) works on
  JavaScript strings. They are modelled as \<^typ>\<open>string\<close>: lists of code units below 256,
  read as Latin-1. On that range \<open>toLowerCase\<close> maps \<open>A..Z\<close> and the accented capitals
  \<open>0xC0..0xDE\<close> (without the multiplication sign \<open>0xD7\<close>) to the letter 32 places higher,
  and the white space of \<open>\s\<close> and of \<open>trim\<close> is tab, line feed, vertical tab, form feed,
  carriage return, space and the no-break space \<open>0xA0\<close>.
\<close>

definition lower_char :: "char \<Rightarrow> char" where
  "lower_char c =
     (let n = (of_char c :: nat) in
      if (65 \<le> n \<and> n \<le> 90) \<or> (192 \<le> n \<and> n \<le> 222 \<and> n \<noteq> 215)
      then char_of (n + 32) else c)"

definition toLowerCase :: "string \<Rightarrow> string" where
  "toLowerCase s = map lower_char s"

text \<open>The character class \<open>[a-z0-9]\<close>.\<close>

definition is_alnum :: "char \<Rightarrow> bool" where
  "is_alnum c =
     (let n = (of_char c :: nat) in (97 \<le> n \<and> n \<le> 122) \<or> (48 \<le> n \<and> n \<le> 57))"

text \<open>The character class \<open>\s\<close>, which is also what \<open>trim\<close> strips.\<close>

definition is_space :: "char \<Rightarrow> bool" where
  "is_space c = ((of_char c :: nat) \<in> {9, 10, 11, 12, 13, 32, 160})"

text \<open>
  \<open>s.replace(/C+/g, ' ')\<close> for a character class \<open>C\<close>: every maximal run of characters
  of the class becomes one space.
\<close>

function replace_runs :: "(char \<Rightarrow> bool) \<Rightarrow> string \<Rightarrow> string" where
  "replace_runs p [] = []"
| "replace_runs p (c # cs) =
     (if p c then CHR '' '' # replace_runs p (dropWhile p cs)
      else c # replace_runs p cs)"
  by pat_completeness auto
termination
  by (relation "measure (\<lambda>(p, s). length s)")
     (auto simp: length_dropWhile_le less_Suc_eq_le)

definition trim :: "string \<Rightarrow> string" where
  "trim s = rev (dropWhile is_space (rev (dropWhile is_space s)))"

text \<open>
  \<open>normalizeText\<close> (searchToggle.ts, lines 64-71). The argument is always a string in the
  script, so the falsy case of \<open>!value\<close> is the empty string.
\<close>

definition normalizeText :: "string \<Rightarrow> string" where
  "normalizeText v =
     (if v = [] then []
      else trim (replace_runs is_space
                  (replace_runs (\<lambda>c. \<not> is_alnum c) (toLowerCase v))))"

text \<open>\<open>haystack.includes(needle)\<close>: the needle occurs as a contiguous substring.\<close>

fun string_includes :: "string \<Rightarrow> string \<Rightarrow> bool" where
  "string_includes [] n = (n = [])"
| "string_includes (c # cs) n = (take (length n) (c # cs) = n \<or> string_includes cs n)"


section \<open>Exceptions and the page\<close>

text \<open>
  A JavaScript value held as data. Strings, \<open>undefined\<close>, \<open>null\<close> and plain objects (their
  own properties, in order) are kept as they are. Any other value (a number, a boolean, an
  array) is kept as \<open>JOther\<close> with the two things the code asks of it: whether it is truthy
  and what a template literal renders it as, \<open>None\<close> when that conversion throws.
\<close>

datatype js_value =
    JUndefined
  | JNull
  | JString string
  | JOther bool "string option"
  | JObject "(string \<times> js_value) list"

text \<open>
  A thrown JavaScript value, as the \<open>catch\<close> clause of the script tells them apart
  (line 124). An \<open>Error\<close> instance is kept as what reading its \<open>message\<close> does: the value
  it gives, a string or not, or what the read throws. Any other value is kept as what
  \<open>String(error)\<close> does: the string it renders, or what the conversion throws (the
  \<open>TypeError\<close> of \<open>String(Object.create(null))\<close>, say).
\<close>

datatype js_exn =
    JsError "js_exn + js_value"
  | JsThrown "js_exn + string"

text \<open>An \<open>Error\<close> with the string message \<open>m\<close>, such as the engine's \<open>TypeError\<close>s.\<close>

definition error_with :: "string \<Rightarrow> js_exn" where
  "error_with m = JsError (Inr (JString m))"

text \<open>\<open>error instanceof Error ? error.message : String(error)\<close>.\<close>

fun error_message :: "js_exn \<Rightarrow> js_exn + js_value" where
  "error_message (JsError m) = m"
| "error_message (JsThrown s) = (case s of Inl e \<Rightarrow> Inl e | Inr str \<Rightarrow> Inr (JString str))"

text \<open>
  The page, as far as the script reads it. A node is named by a number (its identity, under
  which the \<open>Set\<close> of candidates holds it). \<open>querySelectorAll\<close> is what the browser
  answers for a selector, in document order; \<open>instanceofHTMLElement\<close>, \<open>textContent\<close>
  and \<open>getAttribute\<close> (\<open>None\<close> is \<open>null\<close>) are the reads of a node. Every access the script
  makes may throw instead of answering: \<open>throws\<close> names the accesses that do.
\<close>

type_synonym node = nat

datatype access =
    QuerySelectorAll string
  | TextContent node
  | GetAttribute node string
  | Click node

record document =
  querySelectorAll :: "string \<Rightarrow> node list"
  instanceofHTMLElement :: "node \<Rightarrow> bool"
  textContent :: "node \<Rightarrow> string option"
  getAttribute :: "node \<Rightarrow> string \<Rightarrow> string option"
  throws :: "access \<Rightarrow> js_exn option"

definition perform :: "document \<Rightarrow> access \<Rightarrow> 'a \<Rightarrow> js_exn + 'a" where
  "perform d a v = (case throws d a of Some e \<Rightarrow> Inl e | None \<Rightarrow> Inr v)"

definition read_querySelectorAll :: "document \<Rightarrow> string \<Rightarrow> js_exn + node list" where
  "read_querySelectorAll d sel = perform d (QuerySelectorAll sel) (querySelectorAll d sel)"

definition read_textContent :: "document \<Rightarrow> node \<Rightarrow> js_exn + string option" where
  "read_textContent d n = perform d (TextContent n) (textContent d n)"

definition read_getAttribute :: "document \<Rightarrow> node \<Rightarrow> string \<Rightarrow> js_exn + string option" where
  "read_getAttribute d n a = perform d (GetAttribute n a) (getAttribute d n a)"

text \<open>\<open>el.click()\<close>: the call is recorded in the list of clicked nodes, then it may throw.\<close>

definition do_click :: "document \<Rightarrow> node \<Rightarrow> node list \<Rightarrow> (js_exn + unit) \<times> node list" where
  "do_click d n clicked = (perform d (Click n) (), clicked @ [n])"

section \<open>The search toggle probe\<close>

definition KEYWORDS :: "string list" where
  "KEYWORDS = [''search'', ''web search'', ''browse'', ''browsing'']"

definition SELECTORS :: "string list" where
  \<open>SELECTORS =
     [''button'', ''[role="switch"]'', ''[data-testid]'', ''[aria-pressed]'', ''[aria-checked]'']\<close>

text \<open>\<open>x || ''\<close> for a string or \<open>null\<close>, and \<open>a || b\<close> for two strings.\<close>

fun or_empty :: "string option \<Rightarrow> string" where
  "or_empty None = []"
| "or_empty (Some s) = s"

definition js_or :: "string \<Rightarrow> string \<Rightarrow> string" where
  "js_or a b = (if a \<noteq> [] then a else b)"

text \<open>\<open>isOn\<close> (lines 73-81): the three attributes are read first, then compared.\<close>

definition isOn :: "document \<Rightarrow> node \<Rightarrow> js_exn + bool" where
  "isOn d el =
     (if \<not> instanceofHTMLElement d el then Inr False
      else case read_getAttribute d el ''aria-pressed'' of Inl e \<Rightarrow> Inl e | Inr ariaPressed \<Rightarrow>
           case read_getAttribute d el ''aria-checked'' of Inl e \<Rightarrow> Inl e | Inr ariaChecked \<Rightarrow>
           case read_getAttribute d el ''data-state'' of Inl e \<Rightarrow> Inl e | Inr ds \<Rightarrow>
             (let dataState = toLowerCase (or_empty ds) in
              if ariaPressed = Some ''true'' \<or> ariaChecked = Some ''true'' then Inr True
              else if dataState \<in> set [''on'', ''true'', ''checked'', ''selected'', ''active'']
                then Inr True
              else Inr False))"

text \<open>\<open>getLabel\<close> (lines 83-90).\<close>

definition getLabel :: "document \<Rightarrow> node \<Rightarrow> js_exn + string" where
  "getLabel d el =
     (if \<not> instanceofHTMLElement d el then Inr []
      else case read_getAttribute d el ''aria-label'' of Inl e \<Rightarrow> Inl e | Inr al \<Rightarrow>
           case read_getAttribute d el ''data-testid'' of Inl e \<Rightarrow> Inl e | Inr ti \<Rightarrow>
           case read_textContent d el of Inl e \<Rightarrow> Inl e | Inr tc \<Rightarrow>
             (let ariaLabel = or_empty al; testId = or_empty ti; text = or_empty tc;
                  best = js_or ariaLabel (js_or text testId)
              in Inr (trim best)))"

text \<open>
  \<open>candidates.add(el)\<close> on a \<open>Set\<close>: insertion order, a node already present stays where
  it is. Lines 93-96 add the answers of each selector in turn.
\<close>

definition set_add :: "node list \<Rightarrow> node \<Rightarrow> node list" where
  "set_add cands el = (if el \<in> set cands then cands else cands @ [el])"

fun collect_candidates :: "document \<Rightarrow> string list \<Rightarrow> node list \<Rightarrow> js_exn + node list" where
  "collect_candidates d [] cands = Inr cands"
| "collect_candidates d (selector # rest) cands =
     (case read_querySelectorAll d selector of
        Inl e \<Rightarrow> Inl e
      | Inr els \<Rightarrow> collect_candidates d rest (foldl set_add cands els))"

text \<open>The haystack of line 103 and the keyword test of line 105.\<close>

definition haystack_of :: "string option \<Rightarrow> string option \<Rightarrow> string option \<Rightarrow> string" where
  "haystack_of tc al ti =
     normalizeText (or_empty tc) @ '' '' @ normalizeText (or_empty al) @ '' '' @
     normalizeText (or_empty ti)"

definition keyword_match :: "string \<Rightarrow> bool" where
  "keyword_match haystack =
     list_ex (\<lambda>kw. string_includes haystack (normalizeText kw)) KEYWORDS"

text \<open>The loop of lines 97-110 over the candidates in order; \<open>None\<close> is \<open>best = null\<close>.\<close>

fun find_best :: "document \<Rightarrow> node list \<Rightarrow> js_exn + node option" where
  "find_best d [] = Inr None"
| "find_best d (n # rest) =
     (if \<not> instanceofHTMLElement d n then find_best d rest
      else case read_textContent d n of Inl e \<Rightarrow> Inl e | Inr tc \<Rightarrow>
           case read_getAttribute d n ''aria-label'' of Inl e \<Rightarrow> Inl e | Inr al \<Rightarrow>
           case read_getAttribute d n ''data-testid'' of Inl e \<Rightarrow> Inl e | Inr ti \<Rightarrow>
             (let haystack = haystack_of tc al ti in
              if haystack = [] then find_best d rest
              else if keyword_match haystack then Inr (Some n)
              else find_best d rest))"

text \<open>
  \<open>SearchToggleResult\<close> (lines 3-7); an optional label is an \<^typ>\<open>string option\<close>. The
  message of the \<open>error\<close> variant is the value the \<open>catch\<close> clause has put there: the type
  declares a string, the script does not check it.
\<close>

datatype SearchToggleResult =
    AlreadyOn "string option"
  | ToggledOn "string option"
  | NotFound
  | ToggleError js_value

text \<open>
  The body of the \<open>try\<close> block (lines 93-122): what it returns or throws, and the nodes it
  has clicked.
\<close>

definition try_block :: "document \<Rightarrow> (js_exn + SearchToggleResult) \<times> node list" where
  "try_block d =
     (case collect_candidates d SELECTORS [] of Inl e \<Rightarrow> (Inl e, []) | Inr cands \<Rightarrow>
      case find_best d cands of Inl e \<Rightarrow> (Inl e, []) | Inr found \<Rightarrow>
      case found of None \<Rightarrow> (Inr NotFound, []) | Some best \<Rightarrow>
      case getLabel d best of Inl e \<Rightarrow> (Inl e, []) | Inr label \<Rightarrow>
      case isOn d best of Inl e \<Rightarrow> (Inl e, []) | Inr on \<Rightarrow>
        if on then (Inr (AlreadyOn (Some label)), [])
        else case do_click d best [] of
               (Inl e, clicked) \<Rightarrow> (Inl e, clicked)
             | (Inr u, clicked) \<Rightarrow> (Inr (ToggledOn (Some label)), clicked))"

text \<open>
  The \<open>catch\<close> clause (lines 123-125): it returns the \<open>error\<close> variant with the message of
  the caught value, unless computing that message throws.
\<close>

definition catch_clause :: "js_exn \<Rightarrow> js_exn + SearchToggleResult" where
  "catch_clause error =
     (case error_message error of Inl e \<Rightarrow> Inl e | Inr m \<Rightarrow> Inr (ToggleError m))"

text \<open>
  One evaluation of the expression \<open>buildSearchToggleExpression\<close> builds (lines 54-126): the
  \<open>try\<close> block under its \<open>catch\<close>. \<open>Inl\<close> is an exception leaving the expression.
\<close>

definition searchToggleExpression :: "document \<Rightarrow> (js_exn + SearchToggleResult) \<times> node list" where
  "searchToggleExpression d =
     (case try_block d of
        (Inl error, clicked) \<Rightarrow> (catch_clause error, clicked)
      | (Inr r, clicked) \<Rightarrow> (Inr r, clicked))"


section \<open>Reading the probe's answer: \<open>ensureSearchEnabled\<close>\<close>

text \<open>
  Truthiness, and the string a template literal makes of a value. The conversion of a plain
  object goes through its \<open>toString\<close>: the inherited one renders \<open>[object Object]\<close>, but an
  own property of that name, being data, is not callable, and the conversion ends in a
  \<open>TypeError\<close>.
\<close>

fun truthy :: "js_value \<Rightarrow> bool" where
  "truthy JUndefined = False"
| "truthy JNull = False"
| "truthy (JString s) = (s \<noteq> [])"
| "truthy (JOther b r) = b"
| "truthy (JObject fs) = True"

fun to_string :: "js_value \<Rightarrow> js_exn + string" where
  "to_string JUndefined = Inr ''undefined''"
| "to_string JNull = Inr ''null''"
| "to_string (JString s) = Inr s"
| "to_string (JOther b r) =
     (case r of None \<Rightarrow> Inl (error_with ''Cannot convert object to primitive value'')
      | Some str \<Rightarrow> Inr str)"
| "to_string (JObject fs) =
     (case map_of fs ''toString'' of
        None \<Rightarrow> Inr ''[object Object]''
      | Some v \<Rightarrow> Inl (error_with ''Cannot convert object to primitive value''))"

text \<open>\<open>v.k\<close> throws a \<open>TypeError\<close> on \<open>undefined\<close> and \<open>null\<close>; \<open>v?.k\<close> answers \<open>undefined\<close> there.\<close>

fun get_member :: "js_value \<Rightarrow> string \<Rightarrow> js_exn + js_value" where
  "get_member JUndefined k = Inl (error_with ''Cannot read properties of undefined'')"
| "get_member JNull k = Inl (error_with ''Cannot read properties of null'')"
| "get_member (JObject fs) k = Inr (case map_of fs k of None \<Rightarrow> JUndefined | Some v \<Rightarrow> v)"
| "get_member (JString s) k = Inr JUndefined"
| "get_member (JOther b r) k = Inr JUndefined"

fun get_optional :: "js_value \<Rightarrow> string \<Rightarrow> js_exn + js_value" where
  "get_optional JUndefined k = Inr JUndefined"
| "get_optional JNull k = Inr JUndefined"
| "get_optional v k = get_member v k"

record RemoteObject =
  remote_value :: js_value

record EvaluateOutcome =
  result :: "RemoteObject option"

text \<open>\<open>outcome.result?.value\<close>.\<close>

definition outcome_value :: "EvaluateOutcome \<Rightarrow> js_value" where
  "outcome_value outcome =
     (case result outcome of None \<Rightarrow> JUndefined | Some ro \<Rightarrow> remote_value ro)"

text \<open>
  \<open>ensureSearchEnabled\<close> (lines 9-51) after \<open>Runtime.evaluate\<close> has answered \<open>outcome\<close>:
  what it returns or throws, and the logger's lines with the new ones appended. A template
  literal is evaluated before the logger is called with it.
\<close>

definition ensureSearchEnabled ::
  "EvaluateOutcome \<Rightarrow> string list \<Rightarrow> (js_exn + unit) \<times> string list" where
  "ensureSearchEnabled outcome logged =
     (let res = outcome_value outcome in
      case get_optional res ''status'' of Inl e \<Rightarrow> (Inl e, logged) | Inr status \<Rightarrow>
      if status = JString ''already-on'' then
        (case get_member res ''label'' of Inl e \<Rightarrow> (Inl e, logged) | Inr label \<Rightarrow>
           if truthy label
           then (case to_string label of Inl e \<Rightarrow> (Inl e, logged) | Inr str \<Rightarrow>
                   (Inr (), logged @ [''Search toggle already on ('' @ str @ '').'']))
           else (Inr (), logged @ [''Search toggle already on.'']))
      else if status = JString ''toggled-on'' then
        (case get_member res ''label'' of Inl e \<Rightarrow> (Inl e, logged) | Inr label \<Rightarrow>
           if truthy label
           then (case to_string label of Inl e \<Rightarrow> (Inl e, logged) | Inr str \<Rightarrow>
                   (Inr (), logged @ [''Search toggle enabled ('' @ str @ '').'']))
           else (Inr (), logged @ [''Search toggle enabled.'']))
      else if status = JString ''not-found'' then
        (Inr (), logged @
           [''Search toggle not found in ChatGPT UI; continuing without forcing search.''])
      else
        (case get_optional res ''message'' of Inl e \<Rightarrow> (Inl e, logged) | Inr message \<Rightarrow>
           if truthy message
           then (case to_string message of Inl e \<Rightarrow> (Inl e, logged) | Inr str \<Rightarrow>
                   (Inr (), logged @ [''Search toggle error: '' @ str @
                                      ''; continuing without forcing search.'']))
           else (Inr (), logged @ [''Search toggle error; continuing without forcing search.''])))"

text \<open>The object a \<open>SearchToggleResult\<close> is when it arrives by value.\<close>

fun optional_string :: "string option \<Rightarrow> js_value" where
  "optional_string None = JUndefined"
| "optional_string (Some s) = JString s"

fun by_value :: "SearchToggleResult \<Rightarrow> js_value" where
  "by_value (AlreadyOn l) =
     JObject [(''status'', JString ''already-on''), (''label'', optional_string l)]"
| "by_value (ToggledOn l) =
     JObject [(''status'', JString ''toggled-on''), (''label'', optional_string l)]"
| "by_value NotFound = JObject [(''status'', JString ''not-found'')]"
| "by_value (ToggleError m) = JObject [(''status'', JString ''error''), (''message'', m)]"

definition outcome_of :: "SearchToggleResult \<Rightarrow> EvaluateOutcome" where
  "outcome_of r = \<lparr>result = Some \<lparr>remote_value = by_value r\<rparr>\<rparr>"

section \<open>The \<open>oracle.browserQuery\<close> tool handler\<close>

text \<open>
  The handler registered in \<open>main\<close> (part_001, lines 70-115). \<open>readFiles\<close>, \<open>fs.stat\<close>,
  \<open>path.relative\<close>, \<open>process.cwd\<close> and \<open>runBrowserMode\<close> are not part of the sources at
  hand: they are the handler's environment.
\<close>

record BrowserAutomationConfig =
  chromeProfile :: "string option"
  chromePath :: "string option"
  headless :: "bool option"
  keepBrowser :: "bool option"
  timeoutMs :: "nat option"
  inputTimeoutMs :: "nat option"
  cookieSync :: "bool option"
  allowCookieErrors :: "bool option"

record BrowserQueryInput = BrowserAutomationConfig +
  prompt :: string
  files :: "string list option"

record QueryAttachment =
  path :: string
  displayPath :: string
  sizeBytes :: nat

record BrowserRunOptions =
  run_prompt :: string
  attachments :: "QueryAttachment list"
  config :: BrowserAutomationConfig
  verbose :: bool

record QueryResult =
  answerText :: string
  answerMarkdown :: "string option"

record ToolContent =
  content_type :: string
  content_text :: string

record ToolResponse =
  content :: "ToolContent list"

record HandlerEnv =
  cwd :: string
  readFiles :: "string list \<Rightarrow> string \<Rightarrow> js_exn + string list"
  stat_size :: "string \<Rightarrow> js_exn + nat"
  path_relative :: "string \<Rightarrow> string \<Rightarrow> string"
  runBrowserMode :: "BrowserRunOptions \<Rightarrow> js_exn + QueryResult"

text \<open>The loop of lines 78-85 over the resolved files, by their paths.\<close>

fun stat_all :: "HandlerEnv \<Rightarrow> string list \<Rightarrow> js_exn + QueryAttachment list" where
  "stat_all env [] = Inr []"
| "stat_all env (p # ps) =
     (case stat_size env p of Inl e \<Rightarrow> Inl e | Inr bytes \<Rightarrow>
      case stat_all env ps of Inl e \<Rightarrow> Inl e | Inr others \<Rightarrow>
        Inr (\<lparr>path = p, displayPath = js_or (path_relative env (cwd env) p) p,
              sizeBytes = bytes\<rparr> # others))"

definition load_attachments :: "HandlerEnv \<Rightarrow> string list option \<Rightarrow> js_exn + QueryAttachment list" where
  "load_attachments env fs =
     (case fs of
        None \<Rightarrow> Inr []
      | Some names \<Rightarrow>
          if length names > 0
          then (case readFiles env names (cwd env) of
                  Inl e \<Rightarrow> Inl e
                | Inr resolved \<Rightarrow> stat_all env resolved)
          else Inr [])"

definition response_text :: "QueryResult \<Rightarrow> string" where
  "response_text r = js_or (or_empty (answerMarkdown r)) (js_or (answerText r) ''(no text output)'')"

definition browserQuery :: "HandlerEnv \<Rightarrow> BrowserQueryInput \<Rightarrow> js_exn + ToolResponse" where
  "browserQuery env input =
     (case load_attachments env (files input) of Inl e \<Rightarrow> Inl e | Inr atts \<Rightarrow>
      case runBrowserMode env
             \<lparr>run_prompt = prompt input, attachments = atts,
              config = BrowserAutomationConfig.truncate input, verbose = False\<rparr> of
        Inl e \<Rightarrow> Inl e
      | Inr r \<Rightarrow> Inr \<lparr>content = [\<lparr>content_type = ''text'', content_text = response_text r\<rparr>]\<rparr>)"


section \<open>The \<open>session\<close> command\<close>

text \<open>
  \<open>hours\<close> is modelled as a whole number of hours. A line written with a template literal
  is kept as its pieces, a number standing where the literal renders it: how JavaScript
  prints a number is not modelled.
\<close>

datatype piece = Str string | Num int

record StatusOptions =
  hours :: int
  limit :: int
  all :: bool
  clear :: "bool option"
  clean :: "bool option"

record Command =
  opts :: StatusOptions

text \<open>\<open>hours\<close> of \<open>showStatus\<close> is \<open>Infinity\<close> when all sessions are asked for.\<close>

datatype hours_bound = Hours int | Infinity

record ShowStatusOptions =
  show_hours :: hours_bound
  show_includeAll :: bool
  show_limit :: int
  showExamples :: bool

record DeleteOptions =
  delete_hours :: int
  includeAll :: bool

record DeleteResult =
  deleted :: nat

text \<open>
  The collaborators the handler is given (\<open>SessionCommandDependencies\<close>, lines 14-19). They
  act on a world \<open>'w\<close> (the session store, the terminal) the handler itself never touches;
  each may throw.
\<close>

record 'w SessionCommandDependencies =
  showStatus :: "ShowStatusOptions \<Rightarrow> 'w \<Rightarrow> (js_exn + unit) \<times> 'w"
  attachSession :: "string \<Rightarrow> 'w \<Rightarrow> (js_exn + unit) \<times> 'w"
  usesDefaultStatusFilters :: "Command \<Rightarrow> bool"
  deleteSessionsOlderThan :: "DeleteOptions \<Rightarrow> 'w \<Rightarrow> (js_exn + DeleteResult) \<times> 'w"

text \<open>What the handler does to its own process: the two console streams and the exit code.\<close>

record Console =
  stdout :: "piece list list"
  stderr :: "string list"
  exitCode :: "nat option"

definition console_error :: "string \<Rightarrow> Console \<Rightarrow> Console" where
  "console_error msg con = con\<lparr>stderr := stderr con @ [msg]\<rparr>"

definition console_log :: "piece list \<Rightarrow> Console \<Rightarrow> Console" where
  "console_log msg con = con\<lparr>stdout := stdout con @ [msg]\<rparr>"

text \<open>\<open>handleSessionCommand\<close> (part_000, lines 28-64); \<open>None\<close> is \<open>undefined\<close>.\<close>

definition handleSessionCommand ::
  "string option \<Rightarrow> Command \<Rightarrow> 'w SessionCommandDependencies \<Rightarrow> 'w \<times> Console
     \<Rightarrow> (js_exn + unit) \<times> 'w \<times> Console" where
  \<open>handleSessionCommand sessionId command deps st =
     (let w = fst st; con = snd st;
          sessionOptions = opts command;
          clearRequested = (clear sessionOptions = Some True \<or> clean sessionOptions = Some True)
      in
      if clearRequested then
        (if or_empty sessionId \<noteq> [] then
           (Inr (), w,
            (console_error
               ''Cannot combine a session ID with --clear. Remove the ID to delete cached sessions.''
               con)\<lparr>exitCode := Some 1\<rparr>)
         else
           (let hrs = hours sessionOptions; incl = all sessionOptions in
            case deleteSessionsOlderThan deps \<lparr>delete_hours = hrs, includeAll = incl\<rparr> w of
              (Inl e, w') \<Rightarrow> (Inl e, w', con)
            | (Inr res, w') \<Rightarrow>
                (let scope = (if incl then [Str ''all stored sessions'']
                              else [Str ''sessions older than '', Num hrs, Str ''h''])
                 in (Inr (), w',
                     console_log
                       ([Str ''Deleted '', Num (int (deleted res)), Str '' '',
                         Str (if deleted res = 1 then ''session'' else ''sessions''),
                         Str '' (''] @ scope @ [Str '').''])
                       con))))
      else if sessionId = Some ''clear'' \<or> sessionId = Some ''clean'' then
        (Inr (), w,
         (console_error
            ''Session cleanup now uses --clear. Run "oracle session --clear --hours <n>" instead.''
            con)\<lparr>exitCode := Some 1\<rparr>)
      else if or_empty sessionId = [] then
        (let examples = usesDefaultStatusFilters deps command in
         case showStatus deps
                \<lparr>show_hours = (if all sessionOptions then Infinity else Hours (hours sessionOptions)),
                 show_includeAll = all sessionOptions,
                 show_limit = limit sessionOptions,
                 showExamples = examples\<rparr> w of
           (r, w') \<Rightarrow> (r, w', con))
      else
        (case attachSession deps (or_empty sessionId) w of (r, w') \<Rightarrow> (r, w', con)))\<close>

section \<open>The session store\<close>

text \<open>
  \<open>BrowserSession\<close> as the specification's data model gives it; times are milliseconds.
\<close>

record BrowserSession =
  sessionId :: string
  endpoint :: string
  createdAt :: int
  lastUsedAt :: int
  profileName :: string

text \<open>
  Modelled from the spec: \<open>deleteSessionsOlderThan\<close> of \<open>sessionManager.js\<close> is imported by
  the command handler and is not among the sources. The specification says it removes the
  persisted session descriptors whose \<open>lastUsedAt\<close> exceeds the age threshold (or all of them,
  if \<open>includeAll\<close>) and returns a count. \<open>now\<close> is the time of the call.
\<close>

definition is_stale :: "int \<Rightarrow> DeleteOptions \<Rightarrow> BrowserSession \<Rightarrow> bool" where
  "is_stale now options s =
     (includeAll options \<or> now - lastUsedAt s > delete_hours options * 3600000)"

definition deleteOlderThan ::
  "int \<Rightarrow> DeleteOptions \<Rightarrow> BrowserSession list \<Rightarrow> DeleteResult \<times> BrowserSession list" where
  "deleteOlderThan now options store =
     (\<lparr>deleted = length (filter (is_stale now options) store)\<rparr>,
      filter (\<lambda>s. \<not> is_stale now options s) store)"


text \<open>The store as the world of the command handler, with the clock fixed at \<open>now\<close>.\<close>

definition store_dependencies :: "int \<Rightarrow> (BrowserSession list) SessionCommandDependencies" where
  "store_dependencies now =
     \<lparr>showStatus = (\<lambda>options store. (Inr (), store)),
      attachSession = (\<lambda>sid store. (Inr (), store)),
      usesDefaultStatusFilters = (\<lambda>command. True),
      deleteSessionsOlderThan =
        (\<lambda>options store. (Inr (fst (deleteOlderThan now options store)),
                           snd (deleteOlderThan now options store)))\<rparr>"

text \<open>Collaborators that only write down that they were called.\<close>

datatype call =
    ShowStatusCalled ShowStatusOptions
  | AttachSessionCalled string
  | DeleteSessionsOlderThanCalled DeleteOptions

definition recording_dependencies :: "(call list) SessionCommandDependencies" where
  "recording_dependencies =
     \<lparr>showStatus = (\<lambda>options calls. (Inr (), calls @ [ShowStatusCalled options])),
      attachSession = (\<lambda>sid calls. (Inr (), calls @ [AttachSessionCalled sid])),
      usesDefaultStatusFilters = (\<lambda>command. True),
      deleteSessionsOlderThan =
        (\<lambda>options calls. (Inr \<lparr>deleted = 0\<rparr>, calls @ [DeleteSessionsOlderThanCalled options]))\<rparr>"

section \<open>Notions the properties are stated with\<close>

text \<open>
  The candidate set of a page whose queries answer: the answers of the selectors, in the
  order of \<open>SELECTORS\<close>, each node kept at its first place.
\<close>

definition candidates :: "document \<Rightarrow> node list" where
  "candidates d = foldl (\<lambda>cands sel. foldl set_add cands (querySelectorAll d sel)) [] SELECTORS"

text \<open>The haystack of a node, and whether it contains a keyword.\<close>

definition node_haystack :: "document \<Rightarrow> node \<Rightarrow> string" where
  "node_haystack d n =
     haystack_of (textContent d n) (getAttribute d n ''aria-label'') (getAttribute d n ''data-testid'')"

definition node_matches :: "document \<Rightarrow> node \<Rightarrow> bool" where
  "node_matches d n = keyword_match (node_haystack d n)"

text \<open>The on-state attributes of a node.\<close>

definition on_state :: "document \<Rightarrow> node \<Rightarrow> bool" where
  "on_state d n =
     (getAttribute d n ''aria-pressed'' = Some ''true'' \<or>
      getAttribute d n ''aria-checked'' = Some ''true'' \<or>
      toLowerCase (or_empty (getAttribute d n ''data-state''))
        \<in> set [''on'', ''true'', ''checked'', ''selected'', ''active''])"

text \<open>
  The first non-empty of \<open>aria-label\<close>, text content and \<open>data-testid\<close> of a node, and the
  label made of it.
\<close>

definition label_source :: "document \<Rightarrow> node \<Rightarrow> string" where
  "label_source d n =
     js_or (or_empty (getAttribute d n ''aria-label''))
       (js_or (or_empty (textContent d n)) (or_empty (getAttribute d n ''data-testid'')))"

definition node_label :: "document \<Rightarrow> node \<Rightarrow> string" where
  "node_label d n = trim (label_source d n)"

text \<open>
  A value some access to the page throws, and the thrown values the \<open>catch\<close> clause can make
  a string message of: an \<open>Error\<close> whose \<open>message\<close> is a string, or a value \<open>String\<close> renders.
\<close>

definition thrown_by :: "document \<Rightarrow> js_exn \<Rightarrow> bool" where
  "thrown_by d e = (\<exists>a. throws d a = Some e)"

fun printable :: "js_exn \<Rightarrow> bool" where
  "printable (JsError (Inr (JString m))) = True"
| "printable (JsThrown (Inr str)) = True"
| "printable e = False"

definition throws_printable :: "document \<Rightarrow> bool" where
  "throws_printable d = (\<forall>a e. throws d a = Some e \<longrightarrow> printable e)"

text \<open>
  What \<open>v?.k\<close> is, and whether a value, should it be truthy, has a string rendering.
\<close>

fun field :: "js_value \<Rightarrow> string \<Rightarrow> js_value" where
  "field (JObject fs) k = (case map_of fs k of None \<Rightarrow> JUndefined | Some v \<Rightarrow> v)"
| "field v k = JUndefined"

definition renders :: "js_value \<Rightarrow> bool" where
  "renders v = (case to_string v of Inl e \<Rightarrow> \<not> truthy v | Inr str \<Rightarrow> True)"

text \<open>No query and no read of a node throws (a click still may).\<close>

definition reads_succeed :: "document \<Rightarrow> bool" where
  "reads_succeed d =
     ((\<forall>sel. throws d (QuerySelectorAll sel) = None) \<and>
      (\<forall>n. throws d (TextContent n) = None) \<and>
      (\<forall>n a. throws d (GetAttribute n a) = None))"

text \<open>
  The shape of a normalised string: letters and digits of \<open>[a-z0-9]\<close>, and single spaces
  each followed by such a character or by the end.
\<close>

fun spaced :: "string \<Rightarrow> bool" where
  "spaced [] = True"
| "spaced [c] = (is_alnum c \<or> c = CHR '' '')"
| "spaced (c # d # cs) = ((is_alnum c \<or> (c = CHR '' '' \<and> is_alnum d)) \<and> spaced (d # cs))"

section \<open>Sample pages\<close>

text \<open>A page with one \<open>button\<close> "Search" that is pressed.\<close>

definition pressed_page :: document where
  "pressed_page =
     \<lparr>querySelectorAll = (\<lambda>sel. if sel = ''button'' \<or> sel = ''[aria-pressed]'' then [0] else []),
      instanceofHTMLElement = (\<lambda>n. True),
      textContent = (\<lambda>n. Some ''Search''),
      getAttribute = (\<lambda>n a. if a = ''aria-pressed'' then Some ''true'' else None),
      throws = (\<lambda>a. None)\<rparr>"

text \<open>
  A page with two buttons: "Send", then "Web search" with \<open>aria-pressed="false"\<close>.
\<close>

definition two_button_page :: document where
  "two_button_page =
     \<lparr>querySelectorAll =
        (\<lambda>sel. if sel = ''button'' then [0, 1] else if sel = ''[aria-pressed]'' then [1] else []),
      instanceofHTMLElement = (\<lambda>n. True),
      textContent = (\<lambda>n. if n = 0 then Some ''Send'' else Some ''Web search''),
      getAttribute = (\<lambda>n a. if n = 1 \<and> a = ''aria-pressed'' then Some ''false'' else None),
      throws = (\<lambda>a. None)\<rparr>"

text \<open>The same page when the click on the second button throws the string "nope".\<close>

definition click_fails_page :: document where
  "click_fails_page =
     two_button_page\<lparr>throws := (\<lambda>a. if a = Click 1 then Some (JsThrown (Inr ''nope'')) else None)\<rparr>"

text \<open>A page with the single button "Send".\<close>

definition send_page :: document where
  "send_page =
     \<lparr>querySelectorAll = (\<lambda>sel. if sel = ''button'' then [0] else []),
      instanceofHTMLElement = (\<lambda>n. True),
      textContent = (\<lambda>n. Some ''Send''),
      getAttribute = (\<lambda>n a. None),
      throws = (\<lambda>a. None)\<rparr>"

text \<open>The same page when reading the button's text throws an \<open>Error\<close> "boom".\<close>

definition text_fails_page :: document where
  "text_fails_page =
     send_page\<lparr>throws := (\<lambda>a. if a = TextContent 0 then Some (error_with ''boom'') else None)\<rparr>"

text \<open>
  The same page when reading the button's text throws an object without a prototype
  (\<open>Object.create(null)\<close>): \<open>String\<close> of it throws a \<open>TypeError\<close>.
\<close>

definition bare_object :: js_exn where
  "bare_object = JsThrown (Inl (error_with ''Cannot convert object to primitive value''))"

definition bare_throw_page :: document where
  "bare_throw_page =
     send_page\<lparr>throws := (\<lambda>a. if a = TextContent 0 then Some bare_object else None)\<rparr>"

text \<open>The pressed page when reading \<open>data-state\<close> of its button throws an \<open>Error\<close> "boom".\<close>

definition state_fails_page :: document where
  "state_fails_page =
     pressed_page\<lparr>throws :=
       (\<lambda>a. if a = GetAttribute 0 ''data-state'' then Some (error_with ''boom'') else None)\<rparr>"

text \<open>
  A page whose only candidate is an SVG element,
  \<open><svg data-testid="search" aria-pressed="true">\<close>: an \<open>Element\<close> that is no \<open>HTMLElement\<close>.
\<close>

definition svg_page :: document where
  "svg_page =
     \<lparr>querySelectorAll =
        (\<lambda>sel. if sel = ''[data-testid]'' \<or> sel = ''[aria-pressed]'' then [0] else []),
      instanceofHTMLElement = (\<lambda>n. False),
      textContent = (\<lambda>n. Some []),
      getAttribute =
        (\<lambda>n a. if a = ''data-testid'' then Some ''search''
               else if a = ''aria-pressed'' then Some ''true'' else None),
      throws = (\<lambda>a. None)\<rparr>"




section \<open>Sample calls\<close>

text \<open>
  An environment of the tool handler in which every file is found and the browser run
  answers \<open>r\<close>, and a request with a prompt and nothing else.
\<close>

definition answering_env :: "QueryResult \<Rightarrow> HandlerEnv" where
  "answering_env r =
     \<lparr>cwd = ''/work'',
      readFiles = (\<lambda>names dir. Inr names),
      stat_size = (\<lambda>p. Inr 0),
      path_relative = (\<lambda>dir p. p),
      runBrowserMode = (\<lambda>options. Inr r)\<rparr>"

definition plain_input :: BrowserQueryInput where
  "plain_input =
     \<lparr>chromeProfile = None, chromePath = None, headless = None, keepBrowser = None,
      timeoutMs = None, inputTimeoutMs = None, cookieSync = None, allowCookieErrors = None,
      prompt = ''Summarize this'', files = None\<rparr>"

text \<open>\<open>oracle session --clear --hours 24\<close>, and a console nothing was written to.\<close>

definition clear_command :: Command where
  "clear_command =
     \<lparr>opts = \<lparr>hours = 24, limit = 10, all = False, clear = Some True, clean = None\<rparr>\<rparr>"

definition empty_console :: Console where
  "empty_console = \<lparr>stdout = [], stderr = [], exitCode = None\<rparr>"

text \<open>
  A store of two sessions: with the clock at 48 hours, the first was last used 48 hours
  ago and the second one hour ago.
\<close>

definition two_sessions :: "BrowserSession list" where
  "two_sessions =
     [\<lparr>sessionId = ''old'', endpoint = ''ws://127.0.0.1:9222'', createdAt = 0, lastUsedAt = 0,
       profileName = ''Default''\<rparr>,
      \<lparr>sessionId = ''new'', endpoint = ''ws://127.0.0.1:9223'', createdAt = 0,
       lastUsedAt = 47 * 3600000, profileName = ''Default''\<rparr>]"

section \<open>Normalisation\<close>

lemma alnum_not_space: "is_alnum c \<Longrightarrow> \<not> is_space c"
  by (auto simp: is_alnum_def is_space_def Let_def)

lemma space_is_space: "is_space CHR '' ''"
  by (simp add: is_space_def)

lemma space_not_alnum: "\<not> is_alnum CHR '' ''"
  by (simp add: is_alnum_def)

lemma lower_alnum: "is_alnum c \<Longrightarrow> lower_char c = c"
  by (auto simp: is_alnum_def lower_char_def Let_def)

lemma lower_space: "lower_char CHR '' '' = CHR '' ''"
  by (simp add: lower_char_def)

text \<open>Replacing the runs outside \<open>[a-z0-9]\<close> leaves a string of the normalised shape.\<close>

lemma spaced_replace_nonalnum: "spaced (replace_runs (\<lambda>c. \<not> is_alnum c) s)"
proof (induction "\<lambda>c. \<not> is_alnum c" s rule: replace_runs.induct)
  case 1
  show ?case by simp
next
  case (2 c cs)
  show ?case
  proof (cases "is_alnum c")
    case True
    with 2 show ?thesis by (cases "replace_runs (\<lambda>c. \<not> is_alnum c) cs") auto
  next
    case False
    define d where "d = dropWhile (\<lambda>c. \<not> is_alnum c) cs"
    have step: "replace_runs (\<lambda>c. \<not> is_alnum c) (c # cs)
                  = CHR '' '' # replace_runs (\<lambda>c. \<not> is_alnum c) d"
      using False by (simp add: d_def)
    have ih: "spaced (replace_runs (\<lambda>c. \<not> is_alnum c) d)"
      using 2(1) False by (simp add: d_def)
    show ?thesis
    proof (cases d)
      case Nil
      with step show ?thesis by simp
    next
      case (Cons e es)
      then have "is_alnum e"
        using hd_dropWhile[of "\<lambda>c. \<not> is_alnum c" cs] by (auto simp: d_def)
      with Cons step ih show ?thesis by simp
    qed
  qed
qed

text \<open>On a string of that shape every step of \<open>normalizeText\<close> but the trimming is void.\<close>

lemma spaced_replace_space: "spaced t \<Longrightarrow> replace_runs is_space t = t"
  by (induction t rule: spaced.induct) (auto simp: alnum_not_space space_is_space)

lemma spaced_replace_nonalnum_id: "spaced t \<Longrightarrow> replace_runs (\<lambda>c. \<not> is_alnum c) t = t"
  by (induction t rule: spaced.induct) (auto simp: space_not_alnum)

lemma spaced_lower: "spaced t \<Longrightarrow> toLowerCase t = t"
  by (induction t rule: spaced.induct) (auto simp: toLowerCase_def lower_alnum lower_space)

lemma spaced_tl: "spaced (c # cs) \<Longrightarrow> spaced cs"
  by (cases cs) auto

lemma spaced_dropWhile: "spaced t \<Longrightarrow> spaced (dropWhile p t)"
  by (induction t) (auto dest: spaced_tl)

lemma spaced_butlast: "spaced t \<Longrightarrow> spaced (butlast t)"
  by (induction t rule: spaced.induct) (auto split: if_splits)

lemma spaced_strip_end: "spaced t \<Longrightarrow> spaced (rev (dropWhile p (rev t)))"
proof (induction t rule: rev_induct)
  case Nil
  show ?case by simp
next
  case (snoc x xs)
  from snoc.prems have "spaced xs" using spaced_butlast[of "xs @ [x]"] by simp
  with snoc show ?case by auto
qed

lemma spaced_trim: "spaced t \<Longrightarrow> spaced (trim t)"
  by (simp add: trim_def spaced_strip_end spaced_dropWhile)

text \<open>Trimming twice is trimming once.\<close>

lemma strip_end_hd:
  "rev (dropWhile p (rev u)) \<noteq> [] \<Longrightarrow> hd (rev (dropWhile p (rev u))) = hd u"
proof (induction u rule: rev_induct)
  case Nil
  then show ?case by simp
next
  case (snoc x xs)
  show ?case
  proof (cases "p x")
    case True
    with snoc.prems have ne: "rev (dropWhile p (rev xs)) \<noteq> []" by simp
    then have "xs \<noteq> []" by auto
    with True snoc.IH[OF ne] show ?thesis by simp
  next
    case False
    then show ?thesis by simp
  qed
qed

lemma dropWhile_fixed: "u = [] \<or> \<not> p (hd u) \<Longrightarrow> dropWhile p u = u"
  by (cases u) auto

lemma trim_trim: "trim (trim t) = trim t"
proof -
  define u where "u = dropWhile is_space t"
  define w where "w = rev (dropWhile is_space (rev u))"
  have w: "trim t = w" by (simp add: trim_def u_def w_def)
  have hu: "u = [] \<or> \<not> is_space (hd u)"
    using hd_dropWhile[of is_space t] by (auto simp: u_def)
  have "w = [] \<or> \<not> is_space (hd w)"
  proof (cases "w = []")
    case True
    then show ?thesis by simp
  next
    case False
    then have "hd w = hd u" unfolding w_def by (rule strip_end_hd)
    moreover from False have "u \<noteq> []" by (auto simp: w_def)
    ultimately show ?thesis using hu by simp
  qed
  then have "dropWhile is_space w = w" by (rule dropWhile_fixed)
  then have "trim w = rev (dropWhile is_space (rev w))" by (simp add: trim_def)
  also have "\<dots> = w" by (simp add: w_def)
  finally show ?thesis by (simp add: w)
qed

lemma normalizeText_spaced: "spaced (normalizeText s)"
  by (simp add: normalizeText_def spaced_trim spaced_replace_space spaced_replace_nonalnum)

lemma normalizeText_eq_trim:
  "s \<noteq> [] \<Longrightarrow>
   normalizeText s = trim (replace_runs (\<lambda>c. \<not> is_alnum c) (toLowerCase s))"
  by (simp add: normalizeText_def spaced_replace_space spaced_replace_nonalnum)

text \<open>
  Claim C4. \<open>normalizeText\<close> is idempotent: normalising a string that is already normalised
  gives the same string, for every string.
\<close>

theorem normalizeText_idempotent: "normalizeText (normalizeText s) = normalizeText s"
proof (cases "normalizeText s = []")
  case True
  then show ?thesis by (simp add: normalizeText_def)
next
  case False
  then have s: "s \<noteq> []" by (auto simp: normalizeText_def)
  let ?n = "normalizeText s"
  have sp: "spaced ?n" by (rule normalizeText_spaced)
  have "normalizeText ?n = trim ?n"
    using False sp
    by (simp add: normalizeText_def spaced_lower spaced_replace_nonalnum_id spaced_replace_space)
  also have "\<dots> = ?n" by (simp add: normalizeText_eq_trim[OF s] trim_trim)
  finally show ?thesis .
qed

theorem normalizeText_idempotent_witness:
  "normalizeText ''  Web-Search!! (Beta) '' = ''web search beta'' \<and>
   normalizeText (normalizeText ''  Web-Search!! (Beta) '') = ''web search beta''"
proof -
  have a: "normalizeText ''  Web-Search!! (Beta) '' = ''web search beta''" by code_simp
  have "normalizeText (normalizeText ''  Web-Search!! (Beta) '')
          = normalizeText ''  Web-Search!! (Beta) ''"
    by (rule normalizeText_idempotent)
  with a show ?thesis by simp
qed

section \<open>What each step of the probe gives\<close>

text \<open>
  Every access answers with what the page holds, or throws a value of the page.
\<close>

lemma perform_cases:
  "perform d a v = Inr v \<or> (\<exists>e. thrown_by d e \<and> perform d a v = Inl e)"
  by (auto simp: perform_def thrown_by_def split: option.splits)

lemma read_querySelectorAll_ok:
  "reads_succeed d \<Longrightarrow> read_querySelectorAll d sel = Inr (querySelectorAll d sel)"
  by (simp add: reads_succeed_def read_querySelectorAll_def perform_def)

lemma read_textContent_ok:
  "reads_succeed d \<Longrightarrow> read_textContent d n = Inr (textContent d n)"
  by (simp add: reads_succeed_def read_textContent_def perform_def)

lemma read_getAttribute_ok:
  "reads_succeed d \<Longrightarrow> read_getAttribute d n a = Inr (getAttribute d n a)"
  by (simp add: reads_succeed_def read_getAttribute_def perform_def)

lemma read_querySelectorAll_cases:
  "read_querySelectorAll d sel = Inr (querySelectorAll d sel) \<or>
   (\<exists>e. thrown_by d e \<and> read_querySelectorAll d sel = Inl e)"
  unfolding read_querySelectorAll_def by (rule perform_cases)

lemma read_textContent_cases:
  "read_textContent d n = Inr (textContent d n) \<or>
   (\<exists>e. thrown_by d e \<and> read_textContent d n = Inl e)"
  unfolding read_textContent_def by (rule perform_cases)

lemma read_getAttribute_cases:
  "read_getAttribute d n a = Inr (getAttribute d n a) \<or>
   (\<exists>e. thrown_by d e \<and> read_getAttribute d n a = Inl e)"
  unfolding read_getAttribute_def by (rule perform_cases)

text \<open>The candidates the script gathers are those of \<open>candidates\<close>, unless a query throws.\<close>

lemma collect_candidates_cases:
  "collect_candidates d sels acc
     = Inr (foldl (\<lambda>cs sel. foldl set_add cs (querySelectorAll d sel)) acc sels) \<or>
   (\<exists>e. thrown_by d e \<and> collect_candidates d sels acc = Inl e)"
proof (induction sels arbitrary: acc)
  case Nil
  show ?case by simp
next
  case (Cons sel sels)
  from read_querySelectorAll_cases[of d sel] show ?case
  proof
    assume "read_querySelectorAll d sel = Inr (querySelectorAll d sel)"
    with Cons[of "foldl set_add acc (querySelectorAll d sel)"] show ?thesis by simp
  next
    assume "\<exists>e. thrown_by d e \<and> read_querySelectorAll d sel = Inl e"
    then show ?thesis by auto
  qed
qed

lemma collect_candidates_ok:
  "reads_succeed d \<Longrightarrow>
   collect_candidates d sels acc
     = Inr (foldl (\<lambda>cs sel. foldl set_add cs (querySelectorAll d sel)) acc sels)"
  by (induction sels arbitrary: acc) (simp_all add: read_querySelectorAll_ok)

text \<open>The haystack always holds its two separating spaces, so line 104 never skips a node.\<close>

lemma haystack_of_nonempty: "haystack_of tc al ti \<noteq> []"
  by (simp add: haystack_of_def)

text \<open>
  The loop returns the first candidate that is an \<open>HTMLElement\<close> and matches a keyword,
  unless a read throws before.
\<close>

lemma find_best_ok:
  "reads_succeed d \<Longrightarrow>
   find_best d cs = Inr (find (\<lambda>n. instanceofHTMLElement d n \<and> node_matches d n) cs)"
  by (induction cs)
     (simp_all add: read_textContent_ok read_getAttribute_ok haystack_of_nonempty
        node_matches_def node_haystack_def)

lemma find_best_cases:
  "find_best d cs = Inr (find (\<lambda>n. instanceofHTMLElement d n \<and> node_matches d n) cs) \<or>
   (\<exists>e. thrown_by d e \<and> find_best d cs = Inl e)"
proof (induction cs)
  case Nil
  show ?case by simp
next
  case (Cons n cs)
  show ?case
    using Cons read_textContent_cases[of d n] read_getAttribute_cases[of d n "''aria-label''"]
      read_getAttribute_cases[of d n "''data-testid''"]
    by (auto simp: haystack_of_nonempty node_matches_def node_haystack_def)
qed

lemma getLabel_ok:
  "reads_succeed d \<Longrightarrow> instanceofHTMLElement d n \<Longrightarrow> getLabel d n = Inr (node_label d n)"
  by (simp add: getLabel_def read_textContent_ok read_getAttribute_ok node_label_def
      label_source_def)

lemma isOn_ok:
  "reads_succeed d \<Longrightarrow> instanceofHTMLElement d n \<Longrightarrow> isOn d n = Inr (on_state d n)"
  by (simp add: isOn_def read_getAttribute_ok on_state_def)

lemma getLabel_cases:
  "instanceofHTMLElement d n \<Longrightarrow>
   getLabel d n = Inr (node_label d n) \<or> (\<exists>e. thrown_by d e \<and> getLabel d n = Inl e)"
  using read_textContent_cases[of d n] read_getAttribute_cases[of d n "''aria-label''"]
    read_getAttribute_cases[of d n "''data-testid''"]
  by (auto simp: getLabel_def node_label_def label_source_def)

lemma isOn_cases:
  "instanceofHTMLElement d n \<Longrightarrow>
   isOn d n = Inr (on_state d n) \<or> (\<exists>e. thrown_by d e \<and> isOn d n = Inl e)"
  using read_getAttribute_cases[of d n "''aria-pressed''"]
    read_getAttribute_cases[of d n "''aria-checked''"]
    read_getAttribute_cases[of d n "''data-state''"]
  by (auto simp: isOn_def on_state_def)

lemma getLabel_throws: "getLabel d n = Inl e \<Longrightarrow> thrown_by d e"
  using read_textContent_cases[of d n] read_getAttribute_cases[of d n "''aria-label''"]
    read_getAttribute_cases[of d n "''data-testid''"]
  by (auto simp: getLabel_def split: if_splits)

lemma isOn_throws: "isOn d n = Inl e \<Longrightarrow> thrown_by d e"
  using read_getAttribute_cases[of d n "''aria-pressed''"]
    read_getAttribute_cases[of d n "''aria-checked''"]
    read_getAttribute_cases[of d n "''data-state''"]
  by (auto simp: isOn_def Let_def split: if_splits)

lemma collect_candidates_throws: "collect_candidates d sels acc = Inl e \<Longrightarrow> thrown_by d e"
  using collect_candidates_cases[of d sels acc] by auto

lemma find_best_throws: "find_best d cs = Inl e \<Longrightarrow> thrown_by d e"
  using find_best_cases[of d cs] by auto

lemma do_click_throws: "do_click d n clicked = (Inl e, clicked') \<Longrightarrow> thrown_by d e"
  using perform_cases[of d "Click n" "()"] by (auto simp: do_click_def)

text \<open>What the \<open>try\<close> block can return or throw.\<close>

lemma try_block_shape:
  "try_block d = (Inr r, clicked) \<Longrightarrow>
   r = NotFound \<or> (\<exists>l. r = AlreadyOn (Some l)) \<or> (\<exists>l. r = ToggledOn (Some l))"
  by (auto simp: try_block_def do_click_def split: sum.splits option.splits if_splits)

lemma try_block_throws: "try_block d = (Inl e, clicked) \<Longrightarrow> thrown_by d e"
  by (auto simp: try_block_def split: sum.splits option.splits if_splits prod.splits
      dest: collect_candidates_throws find_best_throws getLabel_throws isOn_throws
        do_click_throws)

lemma try_block_found:
  assumes "reads_succeed d"
    and "find (\<lambda>n. instanceofHTMLElement d n \<and> node_matches d n) (candidates d) = Some b"
  shows "try_block d =
     (if on_state d b then (Inr (AlreadyOn (Some (node_label d b))), [])
      else (case throws d (Click b) of
              None \<Rightarrow> Inr (ToggledOn (Some (node_label d b)))
            | Some e \<Rightarrow> Inl e, [b]))"
proof -
  from assms(2) have html: "instanceofHTMLElement d b" by (auto simp: find_Some_iff)
  show ?thesis
    using assms html
    by (simp add: try_block_def collect_candidates_ok candidates_def[symmetric] find_best_ok
        getLabel_ok isOn_ok do_click_def perform_def split: option.splits)
qed

lemma try_block_on:
  assumes "find (\<lambda>n. instanceofHTMLElement d n \<and> node_matches d n) (candidates d) = Some b"
    and "on_state d b"
  shows "try_block d = (Inr (AlreadyOn (Some (node_label d b))), []) \<or>
         (\<exists>e. thrown_by d e \<and> try_block d = (Inl e, []))"
proof -
  from assms(1) have html: "instanceofHTMLElement d b" by (auto simp: find_Some_iff)
  show ?thesis
    using collect_candidates_cases[of d SELECTORS "[]"] find_best_cases[of d "candidates d"]
      getLabel_cases[OF html] isOn_cases[OF html] assms
    by (auto simp: try_block_def candidates_def[symmetric])
qed

lemma try_block_no_match:
  assumes "\<forall>n \<in> set (candidates d). \<not> node_matches d n"
  shows "try_block d = (Inr NotFound, []) \<or> (\<exists>e. thrown_by d e \<and> try_block d = (Inl e, []))"
proof -
  from assms have "find (\<lambda>n. instanceofHTMLElement d n \<and> node_matches d n) (candidates d) = None"
    by (simp add: find_None_iff)
  then show ?thesis
    using collect_candidates_cases[of d SELECTORS "[]"] find_best_cases[of d "candidates d"]
    by (auto simp: try_block_def candidates_def[symmetric])
qed

text \<open>The expression is the \<open>try\<close> block with the \<open>catch\<close> clause on what it throws.\<close>

lemma under_catch:
  "searchToggleExpression d =
     (case try_block d of
        (Inl e, clicked) \<Rightarrow> (catch_clause e, clicked)
      | (Inr r, clicked) \<Rightarrow> (Inr r, clicked))"
  by (simp add: searchToggleExpression_def)

lemma catch_clause_printable:
  "printable e \<Longrightarrow> \<exists>m. catch_clause e = Inr (ToggleError (JString m))"
  by (induction e rule: printable.induct) (simp_all add: catch_clause_def)

lemma probe_found:
  assumes "reads_succeed d"
    and "find (\<lambda>n. instanceofHTMLElement d n \<and> node_matches d n) (candidates d) = Some b"
  shows "searchToggleExpression d =
     (if on_state d b then (Inr (AlreadyOn (Some (node_label d b))), [])
      else (case throws d (Click b) of
              None \<Rightarrow> Inr (ToggledOn (Some (node_label d b)))
            | Some e \<Rightarrow> catch_clause e, [b]))"
  by (simp add: under_catch try_block_found[OF assms] split: option.splits)



section \<open>Properties of the probe\<close>

text \<open>
  Claim C3, as amended. On a page where every value an access throws is an \<open>Error\<close> with a
  string message or a value \<open>String\<close> renders, one evaluation of the expression returns,
  lets no exception out, and its value is one of the four variants: \<open>not-found\<close>,
  \<open>already-on\<close> with a label, \<open>toggled-on\<close> with a label, or \<open>error\<close> with a string message.
  On any page an exception leaves the expression only from the \<open>catch\<close> clause, when
  reading the message of the caught value or rendering that value throws.
\<close>

theorem probe_answers_unless_catch_fails:
  "(throws_printable d \<longrightarrow>
      (\<exists>r clicked. searchToggleExpression d = (Inr r, clicked) \<and>
         (r = NotFound \<or> (\<exists>l. r = AlreadyOn (Some l)) \<or> (\<exists>l. r = ToggledOn (Some l)) \<or>
          (\<exists>m. r = ToggleError (JString m))))) \<and>
   (\<forall>e' clicked. searchToggleExpression d = (Inl e', clicked) \<longrightarrow>
      (\<exists>e. thrown_by d e \<and> error_message e = Inl e'))"
proof (cases "try_block d")
  case (Pair x clicked)
  show ?thesis
  proof (cases x)
    case (Inl e)
    with Pair have t: "try_block d = (Inl e, clicked)" by simp
    then have thrown: "thrown_by d e" by (rule try_block_throws)
    have probe: "searchToggleExpression d = (catch_clause e, clicked)"
      by (simp add: under_catch t)
    have first: "\<exists>r clicked. searchToggleExpression d = (Inr r, clicked) \<and>
         (r = NotFound \<or> (\<exists>l. r = AlreadyOn (Some l)) \<or> (\<exists>l. r = ToggledOn (Some l)) \<or>
          (\<exists>m. r = ToggleError (JString m)))" if "throws_printable d"
    proof -
      from that thrown have "printable e" by (auto simp: throws_printable_def thrown_by_def)
      from catch_clause_printable[OF this] probe show ?thesis by auto
    qed
    have second: "\<exists>e. thrown_by d e \<and> error_message e = Inl e'"
      if "searchToggleExpression d = (Inl e', c)" for e' c
    proof -
      from that probe have "catch_clause e = Inl e'" by simp
      then have "error_message e = Inl e'" by (simp add: catch_clause_def split: sum.splits)
      with thrown show ?thesis by blast
    qed
    from first second show ?thesis by blast
  next
    case (Inr r)
    with Pair have t: "try_block d = (Inr r, clicked)" by simp
    from try_block_shape[OF t] t show ?thesis by (auto simp: under_catch)
  qed
qed

theorem probe_answers_unless_catch_fails_witness:
  "\<exists>r clicked. searchToggleExpression click_fails_page = (Inr r, clicked) \<and>
     r = ToggleError (JString ''nope'') \<and> clicked = [1]"
proof -
  have p: "throws_printable click_fails_page"
    by (auto simp: throws_printable_def click_fails_page_def split: if_splits)
  from probe_answers_unless_catch_fails[of click_fails_page] p obtain r clicked
    where a: "searchToggleExpression click_fails_page = (Inr r, clicked)" by blast
  have b: "searchToggleExpression click_fails_page = (Inr (ToggleError (JString ''nope'')), [1])"
    by code_simp
  from a b have "r = ToggleError (JString ''nope'')" "clicked = [1]" by simp_all
  with a show ?thesis by blast
qed

text \<open>
  The claim as first stated, for every page, fails on \<open>bare_throw_page\<close>: reading the
  button's text throws an object without a prototype, \<open>String(error)\<close> in the \<open>catch\<close>
  clause throws a \<open>TypeError\<close> on it, and that exception leaves the expression.
\<close>

theorem catch_clause_throws_counterexample:
  "throws bare_throw_page (TextContent 0) = Some bare_object \<and>
   searchToggleExpression bare_throw_page
     = (Inl (error_with ''Cannot convert object to primitive value''), [])"
  by code_simp

text \<open>
  Claim C1, as amended. If the first candidate that is an \<open>HTMLElement\<close> and whose haystack
  contains a keyword has \<open>aria-pressed="true"\<close>, \<open>aria-checked="true"\<close> or a \<open>data-state\<close>
  whose lower-cased value is one of on, true, checked, selected, active, then on every page
  the probe clicks no node; it returns \<open>already-on\<close> with that node's label when no query
  and no read of a node throws, and otherwise it returns that or what the \<open>catch\<close> clause
  makes of a value the page has thrown.
\<close>

theorem on_control_never_clicked:
  assumes "find (\<lambda>n. instanceofHTMLElement d n \<and> node_matches d n) (candidates d) = Some b"
    and "on_state d b"
  shows "snd (searchToggleExpression d) = [] \<and>
         (reads_succeed d \<longrightarrow>
            searchToggleExpression d = (Inr (AlreadyOn (Some (node_label d b))), [])) \<and>
         (searchToggleExpression d = (Inr (AlreadyOn (Some (node_label d b))), []) \<or>
          (\<exists>e. thrown_by d e \<and> searchToggleExpression d = (catch_clause e, [])))"
proof -
  have quiet: "searchToggleExpression d = (Inr (AlreadyOn (Some (node_label d b))), [])"
    if "reads_succeed d"
    using probe_found[OF that assms(1)] assms(2) by simp
  from try_block_on[OF assms]
  have either: "searchToggleExpression d = (Inr (AlreadyOn (Some (node_label d b))), []) \<or>
          (\<exists>e. thrown_by d e \<and> searchToggleExpression d = (catch_clause e, []))"
    by (auto simp: under_catch)
  then have "snd (searchToggleExpression d) = []" by auto
  with quiet either show ?thesis by blast
qed

theorem on_control_never_clicked_witness:
  "searchToggleExpression pressed_page = (Inr (AlreadyOn (Some ''Search'')), []) \<and>
   snd (searchToggleExpression state_fails_page) = []"
proof -
  have a: "reads_succeed pressed_page" by (simp add: reads_succeed_def pressed_page_def)
  have b: "find (\<lambda>n. instanceofHTMLElement pressed_page n \<and> node_matches pressed_page n)
             (candidates pressed_page) = Some 0" by code_simp
  have c: "on_state pressed_page 0" by code_simp
  have l: "node_label pressed_page 0 = ''Search''" by code_simp
  have b': "find (\<lambda>n. instanceofHTMLElement state_fails_page n \<and> node_matches state_fails_page n)
             (candidates state_fails_page) = Some 0" by code_simp
  have c': "on_state state_fails_page 0" by code_simp
  from on_control_never_clicked[OF b c] a l
  have "searchToggleExpression pressed_page = (Inr (AlreadyOn (Some ''Search'')), [])" by simp
  moreover from on_control_never_clicked[OF b' c']
  have "snd (searchToggleExpression state_fails_page) = []" by blast
  ultimately show ?thesis by blast
qed

text \<open>
  The claim as first stated, for the first candidate whose haystack contains a keyword,
  fails on \<open>svg_page\<close>: that candidate is the SVG element, it has \<open>aria-pressed="true"\<close>,
  and the probe, which skips every node that is no \<open>HTMLElement\<close>, returns \<open>not-found\<close>.
\<close>

theorem skipped_svg_counterexample:
  "find (node_matches svg_page) (candidates svg_page) = Some 0 \<and>
   getAttribute svg_page 0 ''aria-pressed'' = Some ''true'' \<and>
   searchToggleExpression svg_page = (Inr NotFound, [])"
  by code_simp

text \<open>
  Claim C2, as amended. On a page where no candidate's haystack contains a keyword the
  probe clicks no node, and it returns \<open>not-found\<close> unless an access to the page throws, in
  which case the outcome is what the \<open>catch\<close> clause makes of the thrown value: \<open>error\<close>
  with a string message whenever the page throws only \<open>Error\<close>s with a string message and
  values \<open>String\<close> renders. When no query and no read of a node throws it returns
  \<open>not-found\<close>.
\<close>

theorem no_match_no_click:
  assumes "\<forall>n \<in> set (candidates d). \<not> node_matches d n"
  shows "(reads_succeed d \<longrightarrow> searchToggleExpression d = (Inr NotFound, [])) \<and>
         (searchToggleExpression d = (Inr NotFound, []) \<or>
          (\<exists>e. thrown_by d e \<and> searchToggleExpression d = (catch_clause e, []))) \<and>
         (throws_printable d \<longrightarrow>
            searchToggleExpression d = (Inr NotFound, []) \<or>
            (\<exists>m. searchToggleExpression d = (Inr (ToggleError (JString m)), [])))"
proof -
  from try_block_no_match[OF assms]
  have general: "searchToggleExpression d = (Inr NotFound, []) \<or>
          (\<exists>e. thrown_by d e \<and> searchToggleExpression d = (catch_clause e, []))"
    by (auto simp: under_catch)
  have quiet: "searchToggleExpression d = (Inr NotFound, [])" if r: "reads_succeed d"
  proof -
    from assms have "find (\<lambda>n. instanceofHTMLElement d n \<and> node_matches d n) (candidates d) = None"
      by (simp add: find_None_iff)
    with r show ?thesis
      by (simp add: under_catch try_block_def collect_candidates_ok candidates_def[symmetric]
          find_best_ok)
  qed
  have printed: "searchToggleExpression d = (Inr NotFound, []) \<or>
            (\<exists>m. searchToggleExpression d = (Inr (ToggleError (JString m)), []))"
    if p: "throws_printable d"
  proof -
    from general show ?thesis
    proof
      assume "searchToggleExpression d = (Inr NotFound, [])"
      then show ?thesis by simp
    next
      assume "\<exists>e. thrown_by d e \<and> searchToggleExpression d = (catch_clause e, [])"
      then obtain e where e: "thrown_by d e" "searchToggleExpression d = (catch_clause e, [])"
        by blast
      from p e(1) have "printable e" by (auto simp: throws_printable_def thrown_by_def)
      from catch_clause_printable[OF this] e(2) show ?thesis by auto
    qed
  qed
  from general quiet printed show ?thesis by blast
qed

theorem no_match_no_click_witness:
  "searchToggleExpression send_page = (Inr NotFound, [])"
proof -
  have a: "\<forall>n \<in> set (candidates send_page). \<not> node_matches send_page n" by code_simp
  have b: "reads_succeed send_page" by (simp add: reads_succeed_def send_page_def)
  from no_match_no_click[OF a] b show ?thesis by blast
qed

text \<open>
  The claim as first stated fails on \<open>text_fails_page\<close>: no candidate's haystack contains a
  keyword, reading the button's text throws, and the probe returns \<open>error\<close>, not
  \<open>not-found\<close>.
\<close>

theorem failed_read_counterexample:
  "find (node_matches text_fails_page) (candidates text_fails_page) = None \<and>
   searchToggleExpression text_fails_page = (Inr (ToggleError (JString ''boom'')), [])"
  by code_simp







section \<open>Properties of \<open>ensureSearchEnabled\<close>\<close>

text \<open>
  Reading \<open>status\<close>, \<open>label\<close> and \<open>message\<close> never throws, so the function is decided by
  those three values.
\<close>

lemma get_optional_field: "get_optional v k = Inr (field v k)"
  by (cases v) simp_all

lemma get_member_field:
  "field v ''status'' = JString s \<Longrightarrow> get_member v k = Inr (field v k)"
  by (cases v) simp_all

lemma ensureSearchEnabled_by_status:
  "ensureSearchEnabled outcome logged =
     (let v = outcome_value outcome; status = field v ''status'';
          label = field v ''label''; message = field v ''message'' in
      if status = JString ''already-on'' then
        (if truthy label
         then (case to_string label of Inl e \<Rightarrow> (Inl e, logged) | Inr str \<Rightarrow>
                 (Inr (), logged @ [''Search toggle already on ('' @ str @ '').'']))
         else (Inr (), logged @ [''Search toggle already on.'']))
      else if status = JString ''toggled-on'' then
        (if truthy label
         then (case to_string label of Inl e \<Rightarrow> (Inl e, logged) | Inr str \<Rightarrow>
                 (Inr (), logged @ [''Search toggle enabled ('' @ str @ '').'']))
         else (Inr (), logged @ [''Search toggle enabled.'']))
      else if status = JString ''not-found'' then
        (Inr (), logged @
           [''Search toggle not found in ChatGPT UI; continuing without forcing search.''])
      else
        (if truthy message
         then (case to_string message of Inl e \<Rightarrow> (Inl e, logged) | Inr str \<Rightarrow>
                 (Inr (), logged @ [''Search toggle error: '' @ str @
                                    ''; continuing without forcing search.'']))
         else (Inr (), logged @ [''Search toggle error; continuing without forcing search.''])))"
  by (simp add: ensureSearchEnabled_def Let_def get_optional_field get_member_field)

text \<open>
  Claim C8, as amended. Whatever \<open>Runtime.evaluate\<close> answered (one of the four variants, no
  result, no value, or a value of any other shape), \<open>ensureSearchEnabled\<close> either returns
  normally with exactly one more line logged, or throws with nothing logged. It returns
  normally whenever the label (for \<open>already-on\<close> and \<open>toggled-on\<close>) or the message (for any
  status other than these and \<open>not-found\<close>), if truthy, has a string rendering. The line is
  fixed by the outcome: the "already on" and "enabled" lines, with the label in brackets
  when it is truthy; the "not found" line; and for every other status the "error" line,
  with the message when it is truthy, which like the "not found" line says that the
  query continues without forcing search. It throws exactly when a truthy label or
  message it must render cannot be rendered.
\<close>

theorem ensureSearchEnabled_one_line:
  "(let v = outcome_value outcome; status = field v ''status'';
        label = field v ''label''; message = field v ''message'' in
    ((\<exists>line. ensureSearchEnabled outcome logged = (Inr (), logged @ [line])) \<or>
     (\<exists>e. ensureSearchEnabled outcome logged = (Inl e, logged))) \<and>
    ((status = JString ''already-on'' \<or> status = JString ''toggled-on'' \<longrightarrow> renders label) \<and>
     (status \<noteq> JString ''already-on'' \<and> status \<noteq> JString ''toggled-on'' \<and>
      status \<noteq> JString ''not-found'' \<longrightarrow> renders message)
       \<longrightarrow> (\<exists>line. ensureSearchEnabled outcome logged = (Inr (), logged @ [line]))) \<and>
    (status = JString ''already-on'' \<and> truthy label \<and> to_string label = Inr str \<longrightarrow>
       ensureSearchEnabled outcome logged =
         (Inr (), logged @ [''Search toggle already on ('' @ str @ '').''])) \<and>
    (status = JString ''already-on'' \<and> \<not> truthy label \<longrightarrow>
       ensureSearchEnabled outcome logged = (Inr (), logged @ [''Search toggle already on.''])) \<and>
    (status = JString ''toggled-on'' \<and> truthy label \<and> to_string label = Inr str \<longrightarrow>
       ensureSearchEnabled outcome logged =
         (Inr (), logged @ [''Search toggle enabled ('' @ str @ '').''])) \<and>
    (status = JString ''toggled-on'' \<and> \<not> truthy label \<longrightarrow>
       ensureSearchEnabled outcome logged = (Inr (), logged @ [''Search toggle enabled.''])) \<and>
    (status = JString ''not-found'' \<longrightarrow>
       ensureSearchEnabled outcome logged =
         (Inr (), logged @
            [''Search toggle not found in ChatGPT UI; continuing without forcing search.''])) \<and>
    (status \<noteq> JString ''already-on'' \<and> status \<noteq> JString ''toggled-on'' \<and>
     status \<noteq> JString ''not-found'' \<and> truthy message \<and> to_string message = Inr str \<longrightarrow>
       ensureSearchEnabled outcome logged =
         (Inr (), logged @ [''Search toggle error: '' @ str @
                            ''; continuing without forcing search.''])) \<and>
    (status \<noteq> JString ''already-on'' \<and> status \<noteq> JString ''toggled-on'' \<and>
     status \<noteq> JString ''not-found'' \<and> \<not> truthy message \<longrightarrow>
       ensureSearchEnabled outcome logged =
         (Inr (), logged @ [''Search toggle error; continuing without forcing search.''])) \<and>
    ((status = JString ''already-on'' \<or> status = JString ''toggled-on'') \<and> truthy label \<and>
     to_string label = Inl e \<longrightarrow> ensureSearchEnabled outcome logged = (Inl e, logged)) \<and>
    (status \<noteq> JString ''already-on'' \<and> status \<noteq> JString ''toggled-on'' \<and>
     status \<noteq> JString ''not-found'' \<and> truthy message \<and> to_string message = Inl e \<longrightarrow>
       ensureSearchEnabled outcome logged = (Inl e, logged)))"
  unfolding ensureSearchEnabled_by_status[of outcome logged] Let_def renders_def
  by (auto split: sum.splits)

theorem ensureSearchEnabled_one_line_witness:
  "ensureSearchEnabled (outcome_of (ToggledOn (Some ''Search''))) [''earlier'']
     = (Inr (), [''earlier'', ''Search toggle enabled (Search).''])"
proof -
  let ?o = "outcome_of (ToggledOn (Some ''Search''))"
  have v: "outcome_value ?o
             = JObject [(''status'', JString ''toggled-on''), (''label'', JString ''Search'')]"
    by (simp add: outcome_value_def outcome_of_def)
  have "field (outcome_value ?o) ''status'' = JString ''toggled-on'' \<and>
        truthy (field (outcome_value ?o) ''label'') \<and>
        to_string (field (outcome_value ?o) ''label'') = Inr ''Search''"
    by (simp add: v)
  with ensureSearchEnabled_one_line[of ?o "[''earlier'']" "''Search''"]
  have "ensureSearchEnabled ?o [''earlier'']
          = (Inr (), [''earlier''] @ [''Search toggle enabled ('' @ ''Search'' @ '').''])"
    unfolding Let_def by blast
  then show ?thesis by simp
qed

text \<open>
  The claim as first stated, for every outcome, fails on a malformed \<open>already-on\<close> result
  whose label is the object \<open>{toString: 'x'}\<close>: the template literal throws a \<open>TypeError\<close>
  before the logger is called.
\<close>

theorem unrenderable_label_counterexample:
  "ensureSearchEnabled
     \<lparr>result = Some \<lparr>remote_value =
        JObject [(''status'', JString ''already-on''),
                 (''label'', JObject [(''toString'', JString ''x'')])]\<rparr>\<rparr> [''earlier'']
   = (Inl (error_with ''Cannot convert object to primitive value''), [''earlier''])"
  by code_simp

section \<open>Properties of the tool handler\<close>

text \<open>
  Claim C9. When the attachments load and the browser run completes with a result, the
  handler returns a response with one text item and does not throw. The text is the marker
  "(no text output)" when both \<open>answerMarkdown\<close> and \<open>answerText\<close> are empty, it is
  \<open>answerMarkdown\<close> whenever that is non-empty, and \<open>answerText\<close> otherwise.
\<close>

theorem empty_extraction_is_success:
  assumes "load_attachments env (files input) = Inr atts"
    and "runBrowserMode env
           \<lparr>run_prompt = prompt input, attachments = atts,
            config = BrowserAutomationConfig.truncate input, verbose = False\<rparr> = Inr r"
  shows "browserQuery env input =
           Inr \<lparr>content = [\<lparr>content_type = ''text'', content_text = response_text r\<rparr>]\<rparr> \<and>
         (or_empty (answerMarkdown r) = [] \<and> answerText r = []
            \<longrightarrow> response_text r = ''(no text output)'') \<and>
         (or_empty (answerMarkdown r) \<noteq> []
            \<longrightarrow> response_text r = or_empty (answerMarkdown r)) \<and>
         (or_empty (answerMarkdown r) = [] \<and> answerText r \<noteq> []
            \<longrightarrow> response_text r = answerText r)"
  using assms by (simp add: browserQuery_def response_text_def js_or_def)

theorem empty_extraction_is_success_witness:
  "browserQuery (answering_env \<lparr>answerText = [], answerMarkdown = Some []\<rparr>) plain_input =
     Inr \<lparr>content = [\<lparr>content_type = ''text'', content_text = ''(no text output)''\<rparr>]\<rparr>"
proof -
  let ?r = "\<lparr>answerText = [], answerMarkdown = Some []\<rparr>"
  have a: "load_attachments (answering_env ?r) (files plain_input) = Inr []"
    by (simp add: load_attachments_def plain_input_def)
  have b: "runBrowserMode (answering_env ?r)
           \<lparr>run_prompt = prompt plain_input, attachments = [],
            config = BrowserAutomationConfig.truncate plain_input, verbose = False\<rparr> = Inr ?r"
    by (simp add: answering_env_def)
  from empty_extraction_is_success[OF a b] show ?thesis by simp
qed

section \<open>Properties of the \<open>session\<close> command\<close>

text \<open>
  Claim C10. When a session id (a non-empty string) comes with \<open>--clear\<close> or \<open>--clean\<close>, the
  handler writes an error, sets the exit code to 1 and returns; the world of its
  collaborators is as it was, whatever they are, so none of \<open>deleteSessionsOlderThan\<close>,
  \<open>attachSession\<close> and \<open>showStatus\<close> was called: collaborators that record their calls have
  recorded none.
\<close>

theorem clear_with_id_rejected:
  assumes "sid \<noteq> []"
    and "clear (opts command) = Some True \<or> clean (opts command) = Some True"
  shows "handleSessionCommand (Some sid) command deps (w, con) =
           (Inr (), w,
            con\<lparr>stderr := stderr con @
                   [''Cannot combine a session ID with --clear. Remove the ID to delete cached sessions.''],
                exitCode := Some 1\<rparr>) \<and>
         fst (snd (handleSessionCommand (Some sid) command recording_dependencies (calls, con)))
           = calls"
  using assms by (auto simp: handleSessionCommand_def console_error_def)

theorem clear_with_id_rejected_witness:
  "handleSessionCommand (Some ''abc'') clear_command recording_dependencies ([], empty_console) =
     (Inr (), [],
      \<lparr>stdout = [],
       stderr = [''Cannot combine a session ID with --clear. Remove the ID to delete cached sessions.''],
       exitCode = Some 1\<rparr>)"
proof -
  have a: "''abc'' \<noteq> []" by simp
  have b: "clear (opts clear_command) = Some True \<or> clean (opts clear_command) = Some True"
    by (simp add: clear_command_def)
  from clear_with_id_rejected[OF a b, of recording_dependencies "[]" empty_console]
  have "handleSessionCommand (Some ''abc'') clear_command recording_dependencies ([], empty_console) =
           (Inr (), [],
            empty_console\<lparr>stderr := stderr empty_console @
                   [''Cannot combine a session ID with --clear. Remove the ID to delete cached sessions.''],
                exitCode := Some 1\<rparr>)" by blast
  then show ?thesis by (simp add: empty_console_def)
qed

section \<open>Properties of the session store\<close>

lemma filter_stale_split:
  "length (filter (is_stale now options) store) + length (filter (\<lambda>s. \<not> is_stale now options s) store)
     = length store"
  by (induction store) auto

lemma is_stale_by_age:
  "is_stale now \<lparr>delete_hours = H, includeAll = False\<rparr> = (\<lambda>s. now - lastUsedAt s > H * 3600000)"
  by (rule ext) (simp add: is_stale_def)

lemma is_stale_all:
  "is_stale now \<lparr>delete_hours = H, includeAll = True\<rparr> = (\<lambda>s. True)"
  by (rule ext) (simp add: is_stale_def)

text \<open>
  Claim C7. With \<open>includeAll\<close> false, \<open>deleteOlderThan\<close> removes exactly the sessions last
  used more than \<open>H\<close> hours before the call and keeps every other session as it was, in
  order; with \<open>includeAll\<close> true it removes every session, whatever \<open>H\<close> is; and the count it
  returns is the number of sessions removed.
\<close>

theorem deleteOlderThan_removes_stale:
  "deleteOlderThan now \<lparr>delete_hours = H, includeAll = False\<rparr> store =
     (\<lparr>deleted = length (filter (\<lambda>s. now - lastUsedAt s > H * 3600000) store)\<rparr>,
      filter (\<lambda>s. \<not> now - lastUsedAt s > H * 3600000) store) \<and>
   deleteOlderThan now \<lparr>delete_hours = H, includeAll = True\<rparr> store =
     (\<lparr>deleted = length store\<rparr>, []) \<and>
   deleted (fst (deleteOlderThan now options store))
     + length (snd (deleteOlderThan now options store)) = length store"
proof -
  have "deleteOlderThan now \<lparr>delete_hours = H, includeAll = False\<rparr> store =
     (\<lparr>deleted = length (filter (\<lambda>s. now - lastUsedAt s > H * 3600000) store)\<rparr>,
      filter (\<lambda>s. \<not> now - lastUsedAt s > H * 3600000) store)"
    by (simp add: deleteOlderThan_def is_stale_by_age)
  moreover have "deleteOlderThan now \<lparr>delete_hours = H, includeAll = True\<rparr> store =
     (\<lparr>deleted = length store\<rparr>, [])"
    by (simp add: deleteOlderThan_def is_stale_all)
  moreover have "deleted (fst (deleteOlderThan now options store))
     + length (snd (deleteOlderThan now options store)) = length store"
    using filter_stale_split[of now options store] by (simp add: deleteOlderThan_def)
  ultimately show ?thesis by blast
qed

theorem deleteOlderThan_removes_stale_witness:
  "deleteOlderThan (48 * 3600000) \<lparr>delete_hours = 24, includeAll = False\<rparr> two_sessions =
     (\<lparr>deleted = 1\<rparr>, [two_sessions ! 1])"
proof -
  from deleteOlderThan_removes_stale[of "48 * 3600000" 24 two_sessions]
  have "deleteOlderThan (48 * 3600000) \<lparr>delete_hours = 24, includeAll = False\<rparr> two_sessions =
     (\<lparr>deleted = length (filter (\<lambda>s. 48 * 3600000 - lastUsedAt s > 24 * 3600000) two_sessions)\<rparr>,
      filter (\<lambda>s. \<not> 48 * 3600000 - lastUsedAt s > 24 * 3600000) two_sessions)" by blast
  then show ?thesis by (simp add: two_sessions_def)
qed

text \<open>
  The command handler passes \<open>hours\<close> and \<open>all\<close> on as they are and reports the count on
  standard output.
\<close>

lemma clear_command_deletes:
  assumes "clear (opts command) = Some True \<or> clean (opts command) = Some True"
  shows "\<exists>msg. handleSessionCommand None command (store_dependencies now) (store, con) =
           (Inr (),
            snd (deleteOlderThan now
                   \<lparr>delete_hours = hours (opts command), includeAll = all (opts command)\<rparr> store),
            con\<lparr>stdout := stdout con @ [msg]\<rparr>)"
  using assms
  by (auto simp: handleSessionCommand_def store_dependencies_def console_log_def Let_def)

end
